theory Spec2Isabelle
  imports Main
begin

section \<open>Python values\<close>

text \<open>
  A Python \<open>str\<close> is a sequence of Unicode code points. Most literals of
  \<open>homework.py\<close> are Cyrillic, so a string is a list of code points, written in
  hexadecimal (\<open>0x418\<close> is U+0418); \<open>ascii\<close> embeds an ASCII literal.
\<close>

type_synonym ustring = "nat list"

definition ascii :: "string \<Rightarrow> ustring" where
  "ascii s = map of_char s"

text \<open>
  What \<open>response.json()\<close> can return: \<open>None\<close>, \<open>bool\<close>, \<open>int\<close>,
  \<open>float\<close>, \<open>str\<close>, \<open>list\<close> and \<open>dict\<close> with \<open>str\<close> keys. The program
  never computes with a float, so their representation is the type parameter \<open>'f\<close>.
  A dict is the list of its items, in insertion order, the keys distinct; \<open>map_of\<close>
  looks a key up.
\<close>

datatype 'f pyval =
    PNone
  | PBool bool
  | PInt int
  | PFloat 'f
  | PStr ustring
  | PList "'f pyval list"
  | PDict "(ustring \<times> 'f pyval) list"

text \<open>
  The parts of the interpreter that the program reaches only through \<open>str()\<close>,
  \<open>repr()\<close> and truth tests, and that no line of \<open>homework.py\<close> defines:
  \<open>repr\<close> of a \<open>str\<close> (quoting and escaping), \<open>repr\<close> of a float, list or dict,
  and whether a float is non-zero. They are parameters of the model.
\<close>

record 'f python =
  repr_str :: "ustring \<Rightarrow> ustring"
  repr_other :: "'f pyval \<Rightarrow> ustring"
  float_nonzero :: "'f \<Rightarrow> bool"

text \<open>\<open>str(n)\<close> for an \<open>int\<close>: decimal digits, with a minus sign (U+002D) when negative.\<close>

fun digits :: "nat \<Rightarrow> ustring" where
  "digits n = (if n < 10 then [0x30 + n] else digits (n div 10) @ [0x30 + n mod 10])"

declare digits.simps [simp del]

definition str_int :: "int \<Rightarrow> ustring" where
  "str_int i = (if i < 0 then 0x2D # digits (nat (- i)) else digits (nat i))"

text \<open>\<open>str(v)\<close>, which is what an f-string field \<open>{v}\<close> inserts.\<close>

definition py_str :: "'f python \<Rightarrow> 'f pyval \<Rightarrow> ustring" where
  "py_str rt v =
     (case v of
        PStr s \<Rightarrow> s
      | PNone \<Rightarrow> ascii ''None''
      | PBool b \<Rightarrow> (if b then ascii ''True'' else ascii ''False'')
      | PInt i \<Rightarrow> str_int i
      | _ \<Rightarrow> repr_other rt v)"

text \<open>The truth value of \<open>v\<close> in \<open>if v\<close> and \<open>v or w\<close>.\<close>

definition truthy :: "'f python \<Rightarrow> 'f pyval \<Rightarrow> bool" where
  "truthy rt v =
     (case v of
        PNone \<Rightarrow> False
      | PBool b \<Rightarrow> b
      | PInt i \<Rightarrow> i \<noteq> 0
      | PFloat x \<Rightarrow> float_nonzero rt x
      | PStr s \<Rightarrow> s \<noteq> []
      | PList xs \<Rightarrow> xs \<noteq> []
      | PDict items \<Rightarrow> items \<noteq> [])"

definition py_or :: "'f python \<Rightarrow> 'f pyval \<Rightarrow> 'f pyval \<Rightarrow> 'f pyval" where
  "py_or rt v w = (if truthy rt v then v else w)"

text \<open>\<open>type(v).__name__\<close>.\<close>

definition type_name :: "'f pyval \<Rightarrow> ustring" where
  "type_name v =
     (case v of
        PNone \<Rightarrow> ascii ''NoneType''
      | PBool _ \<Rightarrow> ascii ''bool''
      | PInt _ \<Rightarrow> ascii ''int''
      | PFloat _ \<Rightarrow> ascii ''float''
      | PStr _ \<Rightarrow> ascii ''str''
      | PList _ \<Rightarrow> ascii ''list''
      | PDict _ \<Rightarrow> ascii ''dict'')"

text \<open>\<open>isinstance(v, int)\<close>: \<open>bool\<close> is a subclass of \<open>int\<close>, so a bool passes.\<close>

definition isinstance_int :: "'f pyval \<Rightarrow> bool" where
  "isinstance_int v = (case v of PInt _ \<Rightarrow> True | PBool _ \<Rightarrow> True | _ \<Rightarrow> False)"

section \<open>Exceptions\<close>

text \<open>
  The classes the program raises itself, the two it can provoke in the interpreter
  (\<open>TypeError\<close> for an unhashable dict key, \<open>AttributeError\<close>), and \<open>External\<close>
  for whatever \<open>requests\<close>, the JSON decoder or the Telegram client raise: of those only
  the text \<open>str(error)\<close> is ever used.

  Modelled from the spec: the module \<open>exceptions\<close> (line 11) is not among the sources.
  \<open>ConnectionError\<close> and \<open>MissedTokenError\<close> are taken to be plain subclasses of
  \<open>Exception\<close> whose text is the message they were built with: the specification has
  the failures of the API client caught at the polling loop, which catches \<open>Exception\<close>.
\<close>

datatype exn_class =
    TypeError | KeyError | AttributeError | ConnectionError | MissedTokenError
  | Exception | External

datatype exn = Exn exn_class ustring

text \<open>
  \<open>str(error)\<close>. A \<open>KeyError\<close> built with one argument prints the \<open>repr\<close> of that
  argument, every other class here its message.
\<close>

fun str_exn :: "'f python \<Rightarrow> exn \<Rightarrow> ustring" where
  "str_exn rt (Exn c m) = (if c = KeyError then repr_str rt m else m)"

section \<open>Module constants (lines 17 to 30)\<close>

record config =
  PRACTICUM_TOKEN :: "ustring option"
  TELEGRAM_TOKEN :: "ustring option"
  TELEGRAM_CHAT_ID :: "ustring option"

definition RETRY_PERIOD :: nat where
  "RETRY_PERIOD = 600"

definition ENDPOINT :: ustring where
  "ENDPOINT = ascii ''https://practicum.yandex.ru/api/user_api/homework_statuses/''"

text \<open>\<open>os.getenv\<close> gives \<open>None\<close> for an unset variable, which the f-string prints as \<open>None\<close>.\<close>

definition HEADERS :: "config \<Rightarrow> (ustring \<times> ustring) list" where
  "HEADERS cfg =
     [(ascii ''Authorization'',
       ascii ''OAuth '' @ (case PRACTICUM_TOKEN cfg of None \<Rightarrow> ascii ''None'' | Some t \<Rightarrow> t))]"

text \<open>Line 27: the phrase for a review that passed (48 code points).\<close>

definition verdict_approved :: ustring where
  "verdict_approved =
   [0x420, 0x430, 0x431, 0x43E, 0x442, 0x430, 0x20, 0x43F, 0x440, 0x43E, 0x432, 0x435,
    0x440, 0x435, 0x43D, 0x430, 0x3A, 0x20, 0x440, 0x435, 0x432, 0x44C, 0x44E, 0x435,
    0x440, 0x443, 0x20, 0x432, 0x441, 0x451, 0x20, 0x43F, 0x43E, 0x43D, 0x440, 0x430,
    0x432, 0x438, 0x43B, 0x43E, 0x441, 0x44C, 0x2E, 0x20, 0x423, 0x440, 0x430, 0x21]"

text \<open>Line 28: the phrase for a work taken into review (35 code points).\<close>

definition verdict_reviewing :: ustring where
  "verdict_reviewing =
   [0x420, 0x430, 0x431, 0x43E, 0x442, 0x430, 0x20, 0x432, 0x437, 0x44F, 0x442, 0x430,
    0x20, 0x43D, 0x430, 0x20, 0x43F, 0x440, 0x43E, 0x432, 0x435, 0x440, 0x43A, 0x443,
    0x20, 0x440, 0x435, 0x432, 0x44C, 0x44E, 0x435, 0x440, 0x43E, 0x43C, 0x2E]"

text \<open>Line 29: the phrase for a review with remarks (44 code points).\<close>

definition verdict_rejected :: ustring where
  "verdict_rejected =
   [0x420, 0x430, 0x431, 0x43E, 0x442, 0x430, 0x20, 0x43F, 0x440, 0x43E, 0x432, 0x435,
    0x440, 0x435, 0x43D, 0x430, 0x3A, 0x20, 0x443, 0x20, 0x440, 0x435, 0x432, 0x44C,
    0x44E, 0x435, 0x440, 0x430, 0x20, 0x435, 0x441, 0x442, 0x44C, 0x20, 0x437, 0x430,
    0x43C, 0x435, 0x447, 0x430, 0x43D, 0x438, 0x44F, 0x2E]"

definition HOMEWORK_VERDICTS :: "(ustring \<times> ustring) list" where
  "HOMEWORK_VERDICTS =
     [(ascii ''approved'', verdict_approved),
      (ascii ''reviewing'', verdict_reviewing),
      (ascii ''rejected'', verdict_rejected)]"

section \<open>The collaborators and what the program does to them\<close>

record 'f request =
  url :: ustring
  headers :: "(ustring \<times> ustring) list"
  params :: "(ustring \<times> 'f pyval) list"

text \<open>
  A response: its status code and what \<open>response.json()\<close> does, either the text of the
  exception it raises or the decoded value.
\<close>

record 'f response =
  status_code :: int
  json :: "ustring + 'f pyval"

text \<open>
  The world during one pass of the loop: what \<open>int(time.time())\<close> returns, what
  \<open>requests.get\<close> does with a request (the text of the exception it raises, or a
  response) and what \<open>bot.send_message\<close> does with a chat id and a text (\<open>None\<close> when it
  returns, the text of the exception when it raises).
\<close>

record 'f env =
  time_now :: int
  requests_get :: "'f request \<Rightarrow> ustring + 'f response"
  bot_send :: "ustring option \<Rightarrow> ustring \<Rightarrow> ustring option"

text \<open>
  The observable actions, in order: the request issued, a call of \<open>send_message\<close>
  (\<open>Notify\<close>), a return of \<open>bot.send_message\<close> without exception (\<open>Delivered\<close>), a log
  record of level ERROR, and the sleep. Records of level DEBUG and INFO change neither
  the control flow nor any variable and are left out.
\<close>

datatype 'f event =
    HttpGet "'f request"
  | Notify ustring
  | Delivered ustring
  | LogError ustring
  | Sleep nat

section \<open>send_message (lines 40 to 46)\<close>

text \<open>Line 46: prefix of the record logged when the delivery raises (31 code points).\<close>

definition msg_send_failed :: ustring where
  "msg_send_failed =
   [0x41E, 0x448, 0x438, 0x431, 0x43A, 0x430, 0x20, 0x43F, 0x440, 0x438, 0x20, 0x43E,
    0x442, 0x43F, 0x440, 0x430, 0x432, 0x43A, 0x435, 0x20, 0x441, 0x43E, 0x43E, 0x431,
    0x449, 0x435, 0x43D, 0x438, 0x44F, 0x3A, 0x20]"

definition send_message :: "config \<Rightarrow> 'f env \<Rightarrow> ustring \<Rightarrow> 'f event list" where
  "send_message cfg env message =
     Notify message #
     (case bot_send env (TELEGRAM_CHAT_ID cfg) message of
        None \<Rightarrow> [Delivered message]
      | Some error \<Rightarrow> [LogError (msg_send_failed @ error)])"

section \<open>get_api_answer (lines 49 to 66)\<close>

text \<open>Line 59: prefix of the ConnectionError text, followed by the status code (29 code points).\<close>

definition msg_bad_code :: ustring where
  "msg_bad_code =
   [0x41E, 0x442, 0x432, 0x435, 0x442, 0x20, 0x43D, 0x435, 0x20, 0x43F, 0x43E, 0x43B,
    0x443, 0x447, 0x435, 0x43D, 0x2C, 0x43A, 0x43E, 0x434, 0x20, 0x43E, 0x448, 0x438,
    0x431, 0x43A, 0x438, 0x3A, 0x20]"

text \<open>Line 64: prefix of the text raised when the body is not JSON (37 code points).\<close>

definition msg_not_json :: ustring where
  "msg_not_json =
   [0x424, 0x43E, 0x440, 0x43C, 0x430, 0x442, 0x20, 0x43F, 0x43E, 0x43B, 0x443, 0x447,
    0x435, 0x43D, 0x43D, 0x43E, 0x433, 0x43E, 0x20, 0x43E, 0x442, 0x432, 0x435, 0x442,
    0x430, 0x20, 0x2D, 0x20, 0x43D, 0x435, 0x20, 0x4A, 0x53, 0x4F, 0x4E, 0x3A, 0x20]"

text \<open>Line 66: prefix put before the text of every exception leaving the outer try (44 code points).\<close>

definition msg_connect :: ustring where
  "msg_connect =
   [0x41E, 0x448, 0x438, 0x431, 0x43A, 0x430, 0x20, 0x43F, 0x440, 0x438, 0x20, 0x43F,
    0x43E, 0x43F, 0x44B, 0x442, 0x43A, 0x435, 0x20, 0x43F, 0x43E, 0x434, 0x43A, 0x43B,
    0x44E, 0x447, 0x435, 0x43D, 0x438, 0x44F, 0x20, 0x43A, 0x20, 0x44D, 0x43D, 0x434,
    0x43F, 0x43E, 0x438, 0x43D, 0x442, 0x443, 0x3A, 0x20]"

text \<open>Lines 52 to 56: the request that is issued.\<close>

definition api_request :: "'f python \<Rightarrow> config \<Rightarrow> 'f env \<Rightarrow> 'f pyval \<Rightarrow> 'f request" where
  "api_request rt cfg env current_timestamp =
     (let timestamp = py_or rt current_timestamp (PInt (time_now env))
      in \<lparr>url = ENDPOINT, headers = HEADERS cfg,
          params = [(ascii ''from_date'', timestamp)]\<rparr>)"

text \<open>Lines 56 to 64: the body of the outer \<open>try\<close>.\<close>

definition api_try :: "'f python \<Rightarrow> 'f env \<Rightarrow> 'f request \<Rightarrow> exn + 'f pyval" where
  "api_try rt env req =
     (case requests_get env req of
        Inl error \<Rightarrow> Inl (Exn External error)
      | Inr response \<Rightarrow>
          if status_code response \<noteq> 200
          then Inl (Exn ConnectionError (msg_bad_code @ str_int (status_code response)))
          else (case json response of
                  Inl error \<Rightarrow> Inl (Exn Exception (msg_not_json @ error))
                | Inr v \<Rightarrow> Inr v))"

text \<open>
  The whole function: the request it issued and its outcome. The handler of line 65
  catches every exception of the body, those of lines 58 and 64 included, and raises a
  plain \<open>Exception\<close> in its place.
\<close>

definition get_api_answer ::
    "'f python \<Rightarrow> config \<Rightarrow> 'f env \<Rightarrow> 'f pyval \<Rightarrow> 'f request \<times> (exn + 'f pyval)" where
  "get_api_answer rt cfg env current_timestamp =
     (let req = api_request rt cfg env current_timestamp
      in (req,
          case api_try rt env req of
            Inl error \<Rightarrow> Inl (Exn Exception (msg_connect @ str_exn rt error))
          | Inr v \<Rightarrow> Inr v))"

section \<open>check_response (lines 69 to 83)\<close>

text \<open>Line 73: the payload is not a dict (46 code points).\<close>

definition msg_not_dict :: ustring where
  "msg_not_dict =
   [0x41E, 0x442, 0x432, 0x435, 0x442, 0x2C, 0x20, 0x43F, 0x43E, 0x43B, 0x443, 0x447,
    0x435, 0x43D, 0x43D, 0x44B, 0x439, 0x20, 0x43E, 0x442, 0x20, 0x41, 0x50, 0x49, 0x2C,
    0x20, 0x43D, 0x435, 0x20, 0x44F, 0x432, 0x43B, 0x44F, 0x435, 0x442, 0x441, 0x44F,
    0x20, 0x441, 0x43B, 0x43E, 0x432, 0x430, 0x440, 0x435, 0x43C]"

text \<open>Line 75: the key homeworks is absent (34 code points).\<close>

definition msg_no_homeworks :: ustring where
  "msg_no_homeworks =
   [0x412, 0x20, 0x43E, 0x442, 0x432, 0x435, 0x442, 0x435, 0x20, 0x41, 0x50, 0x49, 0x20,
    0x43D, 0x435, 0x442, 0x20, 0x43A, 0x43B, 0x44E, 0x447, 0x430, 0x20, 0x22, 0x68,
    0x6F, 0x6D, 0x65, 0x77, 0x6F, 0x72, 0x6B, 0x73, 0x22]"

text \<open>Line 77: the value under homeworks is not a list (49 code points).\<close>

definition msg_homeworks_not_list :: ustring where
  "msg_homeworks_not_list =
   [0x417, 0x43D, 0x430, 0x447, 0x435, 0x43D, 0x438, 0x435, 0x20, 0x43F, 0x43E, 0x20,
    0x43A, 0x43B, 0x44E, 0x447, 0x443, 0x20, 0x22, 0x68, 0x6F, 0x6D, 0x65, 0x77, 0x6F,
    0x72, 0x6B, 0x73, 0x22, 0x20, 0x43D, 0x435, 0x20, 0x44F, 0x432, 0x43B, 0x44F, 0x435,
    0x442, 0x441, 0x44F, 0x20, 0x441, 0x43F, 0x438, 0x441, 0x43A, 0x43E, 0x43C]"

text \<open>Line 79: the key current_date is absent (37 code points).\<close>

definition msg_no_current_date :: ustring where
  "msg_no_current_date =
   [0x412, 0x20, 0x43E, 0x442, 0x432, 0x435, 0x442, 0x435, 0x20, 0x41, 0x50, 0x49, 0x20,
    0x43D, 0x435, 0x442, 0x20, 0x43A, 0x43B, 0x44E, 0x447, 0x430, 0x20, 0x22, 0x63,
    0x75, 0x72, 0x72, 0x65, 0x6E, 0x74, 0x5F, 0x64, 0x61, 0x74, 0x65, 0x22]"

text \<open>Line 81: the value under current_date is not an int (44 code points).\<close>

definition msg_bad_current_date :: ustring where
  "msg_bad_current_date =
   [0x417, 0x43D, 0x430, 0x447, 0x435, 0x43D, 0x438, 0x435, 0x20, 0x43F, 0x43E, 0x20,
    0x43A, 0x43B, 0x44E, 0x447, 0x443, 0x20, 0x22, 0x63, 0x75, 0x72, 0x72, 0x65, 0x6E,
    0x74, 0x5F, 0x64, 0x61, 0x74, 0x65, 0x22, 0x20, 0x43D, 0x435, 0x43A, 0x43E, 0x440,
    0x440, 0x435, 0x43A, 0x442, 0x43D, 0x43E]"

text \<open>The value returned is \<open>response['homeworks']\<close>, known to be a list: its elements.\<close>

definition check_response :: "'f pyval \<Rightarrow> exn + 'f pyval list" where
  "check_response response =
     (case response of
        PDict items \<Rightarrow>
          (case map_of items (ascii ''homeworks'') of
             None \<Rightarrow> Inl (Exn KeyError msg_no_homeworks)
           | Some (PList homeworks) \<Rightarrow>
               (case map_of items (ascii ''current_date'') of
                  None \<Rightarrow> Inl (Exn KeyError msg_no_current_date)
                | Some d \<Rightarrow>
                    if \<not> isinstance_int d then Inl (Exn TypeError msg_bad_current_date)
                    else Inr homeworks)
           | Some _ \<Rightarrow> Inl (Exn TypeError msg_homeworks_not_list))
      | _ \<Rightarrow> Inl (Exn TypeError msg_not_dict))"

section \<open>parse_status (lines 86 to 101)\<close>

text \<open>Line 90: the record is not a dict (37 code points).\<close>

definition msg_hw_not_dict :: ustring where
  "msg_hw_not_dict =
   [0x414, 0x430, 0x43D, 0x43D, 0x44B, 0x435, 0x20, 0x43E, 0x20, 0x434, 0x43E, 0x43C,
    0x430, 0x448, 0x43A, 0x435, 0x20, 0x43D, 0x435, 0x20, 0x44F, 0x432, 0x43B, 0x44F,
    0x44E, 0x442, 0x441, 0x44F, 0x20, 0x441, 0x43B, 0x43E, 0x432, 0x430, 0x440, 0x435,
    0x43C]"

text \<open>Line 92: the key homework_name is absent (44 code points).\<close>

definition msg_no_homework_name :: ustring where
  "msg_no_homework_name =
   [0x412, 0x20, 0x434, 0x430, 0x43D, 0x43D, 0x44B, 0x445, 0x20, 0x43E, 0x20, 0x434,
    0x43E, 0x43C, 0x430, 0x448, 0x43A, 0x435, 0x20, 0x43D, 0x435, 0x442, 0x20, 0x43A,
    0x43B, 0x44E, 0x447, 0x430, 0x20, 0x22, 0x68, 0x6F, 0x6D, 0x65, 0x77, 0x6F, 0x72,
    0x6B, 0x5F, 0x6E, 0x61, 0x6D, 0x65, 0x22]"

text \<open>Line 94: the key status is absent (37 code points).\<close>

definition msg_no_status :: ustring where
  "msg_no_status =
   [0x412, 0x20, 0x434, 0x430, 0x43D, 0x43D, 0x44B, 0x445, 0x20, 0x43E, 0x20, 0x434,
    0x43E, 0x43C, 0x430, 0x448, 0x43A, 0x435, 0x20, 0x43D, 0x435, 0x442, 0x20, 0x43A,
    0x43B, 0x44E, 0x447, 0x430, 0x20, 0x22, 0x73, 0x74, 0x61, 0x74, 0x75, 0x73, 0x22]"

text \<open>Line 98: what precedes the status in the text of the unknown-status KeyError (7 code points).\<close>

definition msg_status_pre :: ustring where
  "msg_status_pre =
   [0x421, 0x442, 0x430, 0x442, 0x443, 0x441, 0x20]"

text \<open>Line 98: what follows the status in that text (13 code points).\<close>

definition msg_status_post :: ustring where
  "msg_status_post =
   [0x20, 0x43D, 0x435, 0x20, 0x440, 0x430, 0x441, 0x43F, 0x43E, 0x437, 0x43D, 0x430,
    0x43D]"

text \<open>Line 101: the notification up to and including the opening double quote (34 code points).\<close>

definition msg_changed_pre :: ustring where
  "msg_changed_pre =
   [0x418, 0x437, 0x43C, 0x435, 0x43D, 0x438, 0x43B, 0x441, 0x44F, 0x20, 0x441, 0x442,
    0x430, 0x442, 0x443, 0x441, 0x20, 0x43F, 0x440, 0x43E, 0x432, 0x435, 0x440, 0x43A,
    0x438, 0x20, 0x440, 0x430, 0x431, 0x43E, 0x442, 0x44B, 0x20, 0x22]"

text \<open>Line 101: closing double quote, full stop, space (3 code points).\<close>

definition msg_changed_mid :: ustring where
  "msg_changed_mid =
   [0x22, 0x2E, 0x20]"

text \<open>
  Lines 97 and 99: the membership test hashes the status, so a list or a dict raises
  \<open>TypeError\<close>; a hashable value that is not a \<open>str\<close> equals no key.
\<close>

definition unhashable :: "'f pyval \<Rightarrow> exn" where
  "unhashable v = Exn TypeError (ascii ''unhashable type: '' @ [0x27] @ type_name v @ [0x27])"

definition hashable :: "'f pyval \<Rightarrow> bool" where
  "hashable v = (case v of PList _ \<Rightarrow> False | PDict _ \<Rightarrow> False | _ \<Rightarrow> True)"

definition verdict_of :: "'f pyval \<Rightarrow> exn + ustring option" where
  "verdict_of homework_status =
     (if \<not> hashable homework_status then Inl (unhashable homework_status)
      else (case homework_status of
              PStr s \<Rightarrow> Inr (map_of HOMEWORK_VERDICTS s)
            | _ \<Rightarrow> Inr None))"

definition parse_status :: "'f python \<Rightarrow> 'f pyval \<Rightarrow> exn + ustring" where
  "parse_status rt homework =
     (case homework of
        PDict items \<Rightarrow>
          (case map_of items (ascii ''homework_name'') of
             None \<Rightarrow> Inl (Exn KeyError msg_no_homework_name)
           | Some homework_name \<Rightarrow>
               (case map_of items (ascii ''status'') of
                  None \<Rightarrow> Inl (Exn KeyError msg_no_status)
                | Some homework_status \<Rightarrow>
                    (case verdict_of homework_status of
                       Inl error \<Rightarrow> Inl error
                     | Inr None \<Rightarrow>
                         Inl (Exn KeyError
                               (msg_status_pre @ py_str rt homework_status @ msg_status_post))
                     | Inr (Some verdict) \<Rightarrow>
                         Inr (msg_changed_pre @ py_str rt homework_name
                              @ msg_changed_mid @ verdict))))
      | _ \<Rightarrow> Inl (Exn TypeError msg_hw_not_dict))"

section \<open>check_tokens and main (lines 104 to 141)\<close>

text \<open>\<open>all\<close> of the three variables: each is set and not the empty string.\<close>

definition check_tokens :: "config \<Rightarrow> bool" where
  "check_tokens cfg =
     (list_all (\<lambda>t. t \<noteq> None \<and> t \<noteq> Some [])
        [PRACTICUM_TOKEN cfg, TELEGRAM_TOKEN cfg, TELEGRAM_CHAT_ID cfg])"

text \<open>The two variables of the loop.\<close>

record 'f loop_state =
  current_timestamp :: "'f pyval"
  last_error_message :: "ustring option"

text \<open>Line 133: prefix of the failure message built in the except branch (25 code points).\<close>

definition msg_failure :: ustring where
  "msg_failure =
   [0x421, 0x431, 0x43E, 0x439, 0x20, 0x432, 0x20, 0x440, 0x430, 0x431, 0x43E, 0x442,
    0x435, 0x20, 0x43F, 0x440, 0x43E, 0x433, 0x440, 0x430, 0x43C, 0x43C, 0x44B, 0x3A,
    0x20]"

text \<open>Line 113: one or more tokens are missing (39 code points).\<close>

definition msg_missing_tokens :: ustring where
  "msg_missing_tokens =
   [0x41E, 0x442, 0x441, 0x443, 0x442, 0x441, 0x442, 0x432, 0x443, 0x435, 0x442, 0x20,
    0x43E, 0x434, 0x438, 0x43D, 0x20, 0x438, 0x43B, 0x438, 0x20, 0x43D, 0x435, 0x441,
    0x43A, 0x43E, 0x43B, 0x44C, 0x43A, 0x43E, 0x20, 0x442, 0x43E, 0x43A, 0x435, 0x43D,
    0x43E, 0x432, 0x2E]"

text \<open>
  \<open>response.get('current_date')\<close> of line 130. The response has passed
  \<open>check_response\<close> there, so the \<open>AttributeError\<close> of a value without \<open>get\<close> is
  never raised; it is in the model because the function is total.
\<close>

definition dict_get :: "'f pyval \<Rightarrow> ustring \<Rightarrow> exn + 'f pyval" where
  "dict_get v k =
     (case v of
        PDict items \<Rightarrow> (case map_of items k of None \<Rightarrow> Inr PNone | Some x \<Rightarrow> Inr x)
      | _ \<Rightarrow>
          Inl (Exn AttributeError
                ([0x27] @ type_name v @ [0x27] @ ascii '' object has no attribute ''
                 @ [0x27] @ ascii ''get'' @ [0x27])))"

text \<open>
  Lines 122 to 130, the body of the \<open>try\<close>: the actions performed, and either the
  exception that left the body or the value assigned to \<open>current_timestamp\<close>.
  \<open>send_message\<close> raises nothing, so an exception leaves the body before any message
  is handed to it.
\<close>

definition try_body ::
    "'f python \<Rightarrow> config \<Rightarrow> 'f env \<Rightarrow> 'f pyval \<Rightarrow> 'f event list \<times> (exn + 'f pyval)" where
  "try_body rt cfg env timestamp =
     (let (req, answer) = get_api_answer rt cfg env timestamp
      in case answer of
           Inl error \<Rightarrow> ([HttpGet req], Inl error)
         | Inr response \<Rightarrow>
             (case check_response response of
                Inl error \<Rightarrow> ([HttpGet req], Inl error)
              | Inr homeworks \<Rightarrow>
                  (case homeworks of
                     [] \<Rightarrow> ([HttpGet req], dict_get response (ascii ''current_date''))
                   | homework # _ \<Rightarrow>
                       (case parse_status rt homework of
                          Inl error \<Rightarrow> ([HttpGet req], Inl error)
                        | Inr message \<Rightarrow>
                            (HttpGet req # send_message cfg env message,
                             dict_get response (ascii ''current_date''))))))"

text \<open>Line 133.\<close>

definition failure_message :: "'f python \<Rightarrow> exn \<Rightarrow> ustring" where
  "failure_message rt error = msg_failure @ str_exn rt error"

text \<open>
  One pass of \<open>while True\<close> (lines 120 to 141): \<open>try\<close>, then \<open>except\<close> or \<open>else\<close>,
  then \<open>finally\<close>.
\<close>

definition main_iteration ::
    "'f python \<Rightarrow> config \<Rightarrow> 'f env \<Rightarrow> 'f loop_state \<Rightarrow> 'f loop_state \<times> 'f event list" where
  "main_iteration rt cfg env st =
     (let (evs, outcome) = try_body rt cfg env (current_timestamp st)
      in case outcome of
           Inl error \<Rightarrow>
             (let message = failure_message rt error
              in if Some message \<noteq> last_error_message st
                 then (st\<lparr>last_error_message := Some message\<rparr>,
                       evs @ [LogError message] @ send_message cfg env message
                       @ [Sleep RETRY_PERIOD])
                 else (st, evs @ [LogError message] @ [Sleep RETRY_PERIOD]))
         | Inr date \<Rightarrow>
             (st\<lparr>current_timestamp := date, last_error_message := None\<rparr>,
              evs @ [Sleep RETRY_PERIOD]))"

text \<open>
  The loop never ends by itself. Its first passes are run against a list of worlds, one
  for each pass.
\<close>

fun main_loop ::
    "'f python \<Rightarrow> config \<Rightarrow> 'f env list \<Rightarrow> 'f loop_state \<Rightarrow> 'f loop_state \<times> 'f event list" where
  "main_loop rt cfg [] st = (st, [])"
| "main_loop rt cfg (env # envs) st =
     (let (st1, evs1) = main_iteration rt cfg env st;
          (st2, evs2) = main_loop rt cfg envs st1
      in (st2, evs1 @ evs2))"

text \<open>
  Lines 112 to 118: without the three tokens \<open>main\<close> raises before the loop. Then
  \<open>Bot(token=TELEGRAM_TOKEN)\<close> is built outside any \<open>try\<close>: \<open>bot_init\<close> is what the
  constructor does, \<open>None\<close> when it returns and the text of its exception when it
  raises, which ends \<open>main\<close>. Otherwise the loop starts at the current time with no
  error message remembered.
\<close>

definition main ::
    "'f python \<Rightarrow> config \<Rightarrow> ustring option \<Rightarrow> int \<Rightarrow> 'f env list
       \<Rightarrow> exn + 'f loop_state \<times> 'f event list" where
  "main rt cfg bot_init start envs =
     (if \<not> check_tokens cfg
      then Inl (Exn MissedTokenError msg_missing_tokens)
      else (case bot_init of
              Some error \<Rightarrow> Inl (Exn External error)
            | None \<Rightarrow>
                Inr (main_loop rt cfg envs
                       \<lparr>current_timestamp = PInt start, last_error_message = None\<rparr>)))"

section \<open>The validator as the specification words it\<close>

text \<open>
  The specification lists five checks of a payload and has the validator fail with the
  error of the first check that fails, in that order. \<open>shape_checks\<close> is that list,
  each check a predicate that holds when the check fails, and \<open>validate_by\<close> takes the
  first that holds. What counts as an integer is left open in the list.

  \<open>validate_spec\<close> reads "integer" as the specification's data model does, an integer
  timestamp: an \<open>int\<close> and no \<open>bool\<close>. \<open>validate_amended\<close> counts a boolean as an
  integer as well. Both are compared with \<open>check_response\<close> below.
\<close>

definition is_dict :: "'f pyval \<Rightarrow> bool" where
  "is_dict v = (case v of PDict _ \<Rightarrow> True | _ \<Rightarrow> False)"

definition is_list :: "'f pyval \<Rightarrow> bool" where
  "is_list v = (case v of PList _ \<Rightarrow> True | _ \<Rightarrow> False)"

definition is_integer :: "'f pyval \<Rightarrow> bool" where
  "is_integer v = (case v of PInt _ \<Rightarrow> True | _ \<Rightarrow> False)"

definition is_bool :: "'f pyval \<Rightarrow> bool" where
  "is_bool v = (case v of PBool _ \<Rightarrow> True | _ \<Rightarrow> False)"

definition field :: "'f pyval \<Rightarrow> ustring \<Rightarrow> 'f pyval option" where
  "field v k = (case v of PDict items \<Rightarrow> map_of items k | _ \<Rightarrow> None)"

definition elements :: "'f pyval option \<Rightarrow> 'f pyval list" where
  "elements v = (case v of Some (PList xs) \<Rightarrow> xs | _ \<Rightarrow> [])"

text \<open>"Present but not": the key is there and its value is not of the kind required.\<close>

definition present_but_not :: "('f pyval \<Rightarrow> bool) \<Rightarrow> 'f pyval \<Rightarrow> ustring \<Rightarrow> bool" where
  "present_but_not kind p k = (case field p k of None \<Rightarrow> False | Some v \<Rightarrow> \<not> kind v)"

definition shape_checks :: "('f pyval \<Rightarrow> bool) \<Rightarrow> (('f pyval \<Rightarrow> bool) \<times> exn) list" where
  "shape_checks integer =
     [(\<lambda>p. \<not> is_dict p, Exn TypeError msg_not_dict),
      (\<lambda>p. field p (ascii ''homeworks'') = None, Exn KeyError msg_no_homeworks),
      (\<lambda>p. present_but_not is_list p (ascii ''homeworks''),
       Exn TypeError msg_homeworks_not_list),
      (\<lambda>p. field p (ascii ''current_date'') = None, Exn KeyError msg_no_current_date),
      (\<lambda>p. present_but_not integer p (ascii ''current_date''),
       Exn TypeError msg_bad_current_date)]"

definition validate_by :: "('f pyval \<Rightarrow> bool) \<Rightarrow> 'f pyval \<Rightarrow> exn + 'f pyval list" where
  "validate_by integer p =
     (case find (\<lambda>(fails, error). fails p) (shape_checks integer) of
        Some (fails, error) \<Rightarrow> Inl error
      | None \<Rightarrow> Inr (elements (field p (ascii ''homeworks''))))"

definition validate_spec :: "'f pyval \<Rightarrow> exn + 'f pyval list" where
  "validate_spec p = validate_by is_integer p"

definition validate_amended :: "'f pyval \<Rightarrow> exn + 'f pyval list" where
  "validate_amended p = validate_by (\<lambda>v. is_integer v \<or> is_bool v) p"

text \<open>
  The notification that the specification requires for status \<open>approved\<close> and homework
  name \<open>X\<close>, code point by code point (86 of them).
\<close>

definition spec_approved_X :: ustring where
  "spec_approved_X =
   [0x418, 0x437, 0x43C, 0x435, 0x43D, 0x438, 0x43B, 0x441, 0x44F, 0x20, 0x441, 0x442,
    0x430, 0x442, 0x443, 0x441, 0x20, 0x43F, 0x440, 0x43E, 0x432, 0x435, 0x440, 0x43A,
    0x438, 0x20, 0x440, 0x430, 0x431, 0x43E, 0x442, 0x44B, 0x20, 0x22, 0x58, 0x22, 0x2E,
    0x20, 0x420, 0x430, 0x431, 0x43E, 0x442, 0x430, 0x20, 0x43F, 0x440, 0x43E, 0x432,
    0x435, 0x440, 0x435, 0x43D, 0x430, 0x3A, 0x20, 0x440, 0x435, 0x432, 0x44C, 0x44E,
    0x435, 0x440, 0x443, 0x20, 0x432, 0x441, 0x451, 0x20, 0x43F, 0x43E, 0x43D, 0x440,
    0x430, 0x432, 0x438, 0x43B, 0x43E, 0x441, 0x44C, 0x2E, 0x20, 0x423, 0x440, 0x430,
    0x21]"

section \<open>Sample inputs\<close>

text \<open>
  An interpreter whose \<open>repr\<close> puts a string between single quotes, which is what
  CPython does for a string without quotes, backslashes or unprintable characters.
\<close>

definition rt0 :: "unit python" where
  "rt0 = \<lparr>repr_str = (\<lambda>s. [0x27] @ s @ [0x27]), repr_other = (\<lambda>v. ascii ''...''),
          float_nonzero = (\<lambda>x. True)\<rparr>"

definition cfg0 :: config where
  "cfg0 = \<lparr>PRACTICUM_TOKEN = Some (ascii ''practicum''),
           TELEGRAM_TOKEN = Some (ascii ''telegram''),
           TELEGRAM_CHAT_ID = Some (ascii ''42'')\<rparr>"

text \<open>A world where the API answers with a status code and a body, at a given time.\<close>

definition env_reply ::
    "int \<Rightarrow> int \<Rightarrow> ustring + unit pyval \<Rightarrow> (ustring \<Rightarrow> ustring option) \<Rightarrow> unit env" where
  "env_reply t code body chat =
     \<lparr>time_now = t,
      requests_get = (\<lambda>req. Inr \<lparr>status_code = code, json = body\<rparr>),
      bot_send = (\<lambda>chat_id. chat)\<rparr>"

text \<open>A world where the request itself raises, with the text \<open>timeout\<close>.\<close>

definition env_down :: "(ustring \<Rightarrow> ustring option) \<Rightarrow> unit env" where
  "env_down chat =
     \<lparr>time_now = 1700000000,
      requests_get = (\<lambda>req. Inl (ascii ''timeout'')),
      bot_send = (\<lambda>chat_id. chat)\<rparr>"

text \<open>A chat that delivers, and one that refuses every message.\<close>

definition chat_ok :: "ustring \<Rightarrow> ustring option" where
  "chat_ok text = None"

definition chat_blocked :: "ustring \<Rightarrow> ustring option" where
  "chat_blocked text = Some (ascii ''Forbidden'')"

definition record_of :: "ustring \<Rightarrow> ustring \<Rightarrow> unit pyval" where
  "record_of name status =
     PDict [(ascii ''homework_name'', PStr name), (ascii ''status'', PStr status)]"

definition payload :: "unit pyval list \<Rightarrow> unit pyval \<Rightarrow> unit pyval" where
  "payload homeworks date =
     PDict [(ascii ''homeworks'', PList homeworks), (ascii ''current_date'', date)]"

definition state0 :: "unit loop_state" where
  "state0 = \<lparr>current_timestamp = PInt 1000, last_error_message = None\<rparr>"

text \<open>The failure message of the world that is down.\<close>

definition down_message :: ustring where
  "down_message = msg_failure @ msg_connect @ ascii ''timeout''"

section \<open>Auxiliary facts\<close>

lemma check_response_Inr:
  "check_response response = Inr homeworks \<Longrightarrow>
     \<exists>items d. response = PDict items
       \<and> map_of items (ascii ''homeworks'') = Some (PList homeworks)
       \<and> map_of items (ascii ''current_date'') = Some d \<and> isinstance_int d"
  by (auto simp: check_response_def split: pyval.splits option.splits if_splits)

lemma dict_get_checked:
  "check_response response = Inr homeworks \<Longrightarrow>
     \<exists>d. dict_get response (ascii ''current_date'') = Inr d
       \<and> field response (ascii ''current_date'') = Some d \<and> isinstance_int d"
  by (auto simp: dict_get_def field_def dest!: check_response_Inr)

lemma try_body_failure_events:
  "try_body rt cfg env ts = (evs, Inl error) \<Longrightarrow> evs = [HttpGet (api_request rt cfg env ts)]"
  by (auto simp: try_body_def get_api_answer_def Let_def
           split: sum.splits list.splits dest: dict_get_checked)

lemma main_iteration_failure:
  "try_body rt cfg env (current_timestamp st) = (evs, Inl error) \<Longrightarrow>
     main_iteration rt cfg env st =
       (st\<lparr>last_error_message := Some (failure_message rt error)\<rparr>,
        evs @ [LogError (failure_message rt error)]
        @ (if last_error_message st = Some (failure_message rt error) then []
           else send_message cfg env (failure_message rt error))
        @ [Sleep RETRY_PERIOD])"
  by (simp add: main_iteration_def Let_def)

lemma main_iteration_success:
  "try_body rt cfg env (current_timestamp st) = (evs, Inr d) \<Longrightarrow>
     main_iteration rt cfg env st =
       (st\<lparr>current_timestamp := d, last_error_message := None\<rparr>, evs @ [Sleep RETRY_PERIOD])"
  by (simp add: main_iteration_def)

lemma Notify_send_message: "Notify t \<in> set (send_message cfg env m) \<longleftrightarrow> t = m"
  by (auto simp: send_message_def split: option.splits)

lemma try_body_empty:
  assumes "snd (get_api_answer rt cfg env ts) = Inr response"
      and "check_response response = Inr []"
  shows "\<exists>d. try_body rt cfg env ts = ([HttpGet (api_request rt cfg env ts)], Inr d)
           \<and> field response (ascii ''current_date'') = Some d \<and> isinstance_int d"
  using assms dict_get_checked [OF assms(2)]
  by (auto simp: try_body_def get_api_answer_def Let_def split: sum.splits)

lemma try_body_first:
  assumes "snd (get_api_answer rt cfg env ts) = Inr response"
      and "check_response response = Inr (homework # rest)"
      and "parse_status rt homework = Inr message"
  shows "\<exists>d. try_body rt cfg env ts =
               (HttpGet (api_request rt cfg env ts) # send_message cfg env message, Inr d)
           \<and> field response (ascii ''current_date'') = Some d \<and> isinstance_int d"
  using assms dict_get_checked [OF assms(2)]
  by (auto simp: try_body_def get_api_answer_def Let_def split: sum.splits)

lemma try_body_parse_failure:
  assumes "snd (get_api_answer rt cfg env ts) = Inr response"
      and "check_response response = Inr (homework # rest)"
      and "parse_status rt homework = Inl error"
  shows "try_body rt cfg env ts = ([HttpGet (api_request rt cfg env ts)], Inl error)"
  using assms
  by (auto simp: try_body_def get_api_answer_def Let_def split: sum.splits)

lemma try_body_api_failure:
  assumes "snd (get_api_answer rt cfg env ts) = Inl error"
  shows "try_body rt cfg env ts = ([HttpGet (api_request rt cfg env ts)], Inl error)"
  using assms
  by (auto simp: try_body_def get_api_answer_def Let_def split: sum.splits)

lemma try_body_check_failure:
  assumes "snd (get_api_answer rt cfg env ts) = Inr response"
      and "check_response response = Inl error"
  shows "try_body rt cfg env ts = ([HttpGet (api_request rt cfg env ts)], Inl error)"
  using assms
  by (auto simp: try_body_def get_api_answer_def Let_def split: sum.splits)

lemma failed_pass_keeps_cursor:
  assumes "try_body rt cfg env (current_timestamp st) = (evs, Inl error)"
  shows "current_timestamp (fst (main_iteration rt cfg env st)) = current_timestamp st
       \<and> LogError (failure_message rt error) \<in> set (snd (main_iteration rt cfg env st))"
  using assms by (simp add: main_iteration_failure)

lemma get_api_answer_raises_plain:
  "snd (get_api_answer rt cfg env ts) = Inl error \<Longrightarrow> \<exists>m. error = Exn Exception (msg_connect @ m)"
  by (auto simp: get_api_answer_def Let_def split: sum.splits)

lemma get_api_answer_bad_code:
  "requests_get env (api_request rt cfg env ts) = Inr response \<Longrightarrow> status_code response \<noteq> 200 \<Longrightarrow>
   snd (get_api_answer rt cfg env ts) =
     Inl (Exn Exception (msg_connect @ msg_bad_code @ str_int (status_code response)))"
  by (simp add: get_api_answer_def api_try_def Let_def)

lemma verdict_of_unknown:
  "hashable status \<Longrightarrow>
   status \<notin> {PStr (ascii ''approved''), PStr (ascii ''reviewing''), PStr (ascii ''rejected'')} \<Longrightarrow>
   verdict_of status = Inr None"
  by (auto simp: verdict_of_def HOMEWORK_VERDICTS_def split: pyval.splits)

lemma parse_status_unknown:
  "map_of items (ascii ''homework_name'') = Some name \<Longrightarrow>
   map_of items (ascii ''status'') = Some status \<Longrightarrow>
   hashable status \<Longrightarrow>
   status \<notin> {PStr (ascii ''approved''), PStr (ascii ''reviewing''), PStr (ascii ''rejected'')} \<Longrightarrow>
   parse_status rt (PDict items) =
     Inl (Exn KeyError (msg_status_pre @ py_str rt status @ msg_status_post))"
  by (simp add: parse_status_def verdict_of_unknown)

lemma failure_message_not_status: "failure_message rt error \<noteq> msg_changed_pre @ rest"
  by (simp add: failure_message_def msg_failure_def msg_changed_pre_def)

lemma parse_status_unhashable:
  "parse_status rt (PDict [(ascii ''homework_name'', PStr name), (ascii ''status'', PList xs)]) =
     Inl (Exn TypeError (ascii ''unhashable type: '' @ [0x27] @ ascii ''list'' @ [0x27]))"
  by (simp add: parse_status_def verdict_of_def hashable_def unhashable_def type_name_def ascii_def)

lemma check_response_accepts_bool:
  "check_response (PDict [(ascii ''homeworks'', PList []), (ascii ''current_date'', PBool True)]) = Inr []"
  by (simp add: check_response_def isinstance_int_def ascii_def)

subsection \<open>The sample inputs evaluated\<close>

lemma try_body_down:
  "try_body rt0 cfg0 (env_down chat) ts =
     ([HttpGet (api_request rt0 cfg0 (env_down chat) ts)],
      Inl (Exn Exception (msg_connect @ ascii ''timeout'')))"
  by (simp add: try_body_def get_api_answer_def api_try_def env_down_def Let_def)

lemma failure_message_down:
  "failure_message rt0 (Exn Exception (msg_connect @ ascii ''timeout'')) = down_message"
  by (simp add: failure_message_def down_message_def)

lemma get_api_answer_reply:
  "snd (get_api_answer rt0 cfg0 (env_reply t 200 (Inr v) chat) ts) = Inr v"
  by (simp add: get_api_answer_def api_try_def env_reply_def Let_def)

lemma check_response_payload:
  "isinstance_int d \<Longrightarrow> check_response (payload homeworks d) = Inr homeworks"
  by (simp add: check_response_def payload_def ascii_def)

lemma try_body_reply_empty:
  "try_body rt0 cfg0 (env_reply t 200 (Inr (payload [] (PInt d))) chat) ts =
     ([HttpGet (api_request rt0 cfg0 (env_reply t 200 (Inr (payload [] (PInt d))) chat) ts)],
      Inr (PInt d))"
  using try_body_empty [OF get_api_answer_reply check_response_payload, of "PInt d" t chat ts]
  by (auto simp: isinstance_int_def field_def payload_def ascii_def)

subsection \<open>Two passes, the start, and a pass with nothing new\<close>

lemma main_loop_two_failures:
  assumes "try_body rt cfg env1 (current_timestamp st) = (evs1, Inl error1)"
      and "try_body rt cfg env2 (current_timestamp st) = (evs2, Inl error2)"
      and "failure_message rt error1 = m" and "failure_message rt error2 = m"
  shows "[t. Notify t \<leftarrow> snd (main_loop rt cfg [env1, env2] st)]
           = (if last_error_message st = Some m then [] else [m])"
  using assms try_body_failure_events [OF assms(1)] try_body_failure_events [OF assms(2)]
  by (simp add: main_iteration_failure send_message_def split: option.splits)

lemma main_without_tokens:
  "\<not> check_tokens cfg \<Longrightarrow>
     main rt cfg bot_init start envs = Inl (Exn MissedTokenError msg_missing_tokens)"
  by (simp add: main_def)

lemma end_to_end_empty:
  "main_iteration rt0 cfg0 (env_reply t 200 (Inr (payload [] (PInt 1000))) chat) st =
     (st\<lparr>current_timestamp := PInt 1000, last_error_message := None\<rparr>,
      [HttpGet (api_request rt0 cfg0 (env_reply t 200 (Inr (payload [] (PInt 1000))) chat)
          (current_timestamp st)),
       Sleep RETRY_PERIOD])"
  by (simp add: main_iteration_success [OF try_body_reply_empty])

section \<open>The polling loop: de-duplication of failure messages\<close>

text \<open>
  Claim C1. When the body of the \<open>try\<close> of a pass raises, the handler hands the failure
  message \<open>m\<close> to \<open>send_message\<close> if and only if \<open>m\<close> differs from
  \<open>last_error_message\<close>. A message equal to the remembered one is only logged; any
  other message is sent, whatever the class of the exception, since only the texts are
  compared. No other text is sent in that pass, and afterwards \<open>last_error_message\<close> is
  \<open>m\<close>.
\<close>

theorem failure_notifies_iff_new:
  assumes "try_body rt cfg env (current_timestamp st) = (evs, Inl error)"
      and "m = failure_message rt error"
  shows "(Notify m \<in> set (snd (main_iteration rt cfg env st)) \<longleftrightarrow> last_error_message st \<noteq> Some m)
       \<and> (\<forall>t. Notify t \<in> set (snd (main_iteration rt cfg env st)) \<longrightarrow> t = m)
       \<and> LogError m \<in> set (snd (main_iteration rt cfg env st))
       \<and> last_error_message (fst (main_iteration rt cfg env st)) = Some m"
  using assms try_body_failure_events [OF assms(1)]
  by (simp add: main_iteration_failure Notify_send_message)

theorem failure_notifies_iff_new_witness:
  "try_body rt0 cfg0 (env_down chat_ok) (current_timestamp state0) =
     ([HttpGet (api_request rt0 cfg0 (env_down chat_ok) (current_timestamp state0))],
      Inl (Exn Exception (msg_connect @ ascii ''timeout'')))
   \<and> Notify down_message \<in> set (snd (main_iteration rt0 cfg0 (env_down chat_ok) state0))
   \<and> last_error_message (fst (main_iteration rt0 cfg0 (env_down chat_ok) state0))
       = Some down_message
   \<and> Notify down_message \<notin> set (snd (main_iteration rt0 cfg0 (env_down chat_ok)
         (state0\<lparr>last_error_message := Some down_message\<rparr>)))"
proof -
  have fresh: "try_body rt0 cfg0 (env_down chat_ok) (current_timestamp state0) =
     ([HttpGet (api_request rt0 cfg0 (env_down chat_ok) (current_timestamp state0))],
      Inl (Exn Exception (msg_connect @ ascii ''timeout'')))"
    by (rule try_body_down)
  have again: "try_body rt0 cfg0 (env_down chat_ok)
       (current_timestamp (state0\<lparr>last_error_message := Some down_message\<rparr>)) =
     ([HttpGet (api_request rt0 cfg0 (env_down chat_ok) (current_timestamp state0))],
      Inl (Exn Exception (msg_connect @ ascii ''timeout'')))"
    by (simp add: try_body_down)
  show ?thesis
    using fresh
      failure_notifies_iff_new [OF fresh failure_message_down [symmetric]]
      failure_notifies_iff_new [OF again failure_message_down [symmetric]]
    by (simp add: state0_def)
qed

text \<open>
  Claim C2. A pass whose \<open>try\<close> body raises nothing leaves \<open>last_error_message\<close>
  at \<open>None\<close>, whatever it held before. If the next pass fails, its failure message is
  therefore handed to \<open>send_message\<close>, also when it is the very message that was
  reported before the successful pass.
\<close>

theorem success_resets_last_error:
  assumes "try_body rt cfg env (current_timestamp st) = (evs, Inr d)"
  shows "last_error_message (fst (main_iteration rt cfg env st)) = None
       \<and> (\<forall>env' evs' error.
            try_body rt cfg env' d = (evs', Inl error) \<longrightarrow>
            Notify (failure_message rt error)
              \<in> set (snd (main_iteration rt cfg env' (fst (main_iteration rt cfg env st)))))"
  using assms
  by (simp add: main_iteration_success main_iteration_failure Notify_send_message)

theorem success_resets_last_error_witness:
  "last_error_message (fst (main_iteration rt0 cfg0 (env_down chat_ok) state0)) = Some down_message
   \<and> last_error_message
        (fst (main_iteration rt0 cfg0 (env_reply 1001 200 (Inr (payload [] (PInt 2000))) chat_ok)
               (state0\<lparr>last_error_message := Some down_message\<rparr>))) = None
   \<and> Notify down_message
        \<in> set (snd (main_iteration rt0 cfg0 (env_down chat_ok)
             (fst (main_iteration rt0 cfg0 (env_reply 1001 200 (Inr (payload [] (PInt 2000))) chat_ok)
                    (state0\<lparr>last_error_message := Some down_message\<rparr>)))))"
proof -
  have reported: "last_error_message (fst (main_iteration rt0 cfg0 (env_down chat_ok) state0))
      = Some down_message"
    by (simp add: main_iteration_failure [OF try_body_down] failure_message_down)
  have ok: "try_body rt0 cfg0 (env_reply 1001 200 (Inr (payload [] (PInt 2000))) chat_ok)
        (current_timestamp (state0\<lparr>last_error_message := Some down_message\<rparr>)) =
      ([HttpGet (api_request rt0 cfg0 (env_reply 1001 200 (Inr (payload [] (PInt 2000))) chat_ok)
          (current_timestamp (state0\<lparr>last_error_message := Some down_message\<rparr>)))], Inr (PInt 2000))"
    by (rule try_body_reply_empty)
  note reset = success_resets_last_error [OF ok]
  from reset try_body_down [of chat_ok "PInt 2000"]
  have "Notify (failure_message rt0 (Exn Exception (msg_connect @ ascii ''timeout'')))
        \<in> set (snd (main_iteration rt0 cfg0 (env_down chat_ok)
             (fst (main_iteration rt0 cfg0 (env_reply 1001 200 (Inr (payload [] (PInt 2000))) chat_ok)
                    (state0\<lparr>last_error_message := Some down_message\<rparr>)))))"
    by blast
  with reported reset show ?thesis
    by (simp add: failure_message_down)
qed

section \<open>The status formatter\<close>

text \<open>
  Claim C3. For a record that is a dict whose \<open>homework_name\<close> and \<open>status\<close> are
  strings, the status a key of \<open>HOMEWORK_VERDICTS\<close>, \<open>parse_status\<close> returns the
  text of line 101: the fixed opening, the name between double quotes, a full stop and a
  space, then the phrase stored under that status. For the status \<open>approved\<close> and the
  name \<open>X\<close> that is the text the specification quotes, \<open>spec_approved_X\<close>.
\<close>

theorem parse_status_known_status:
  "(map_of items (ascii ''homework_name'') = Some (PStr name)
      \<and> map_of items (ascii ''status'') = Some (PStr status)
      \<and> map_of HOMEWORK_VERDICTS status = Some verdict
    \<longrightarrow> parse_status rt (PDict items)
          = Inr (msg_changed_pre @ name @ msg_changed_mid @ verdict))
   \<and> parse_status rt
         (PDict [(ascii ''homework_name'', PStr (ascii ''X'')),
                 (ascii ''status'', PStr (ascii ''approved''))])
       = Inr spec_approved_X"
proof
  show "map_of items (ascii ''homework_name'') = Some (PStr name)
      \<and> map_of items (ascii ''status'') = Some (PStr status)
      \<and> map_of HOMEWORK_VERDICTS status = Some verdict
    \<longrightarrow> parse_status rt (PDict items)
          = Inr (msg_changed_pre @ name @ msg_changed_mid @ verdict)"
    by (simp add: parse_status_def verdict_of_def hashable_def py_str_def)
next
  have "map_of HOMEWORK_VERDICTS (ascii ''approved'') = Some verdict_approved"
    by (simp add: HOMEWORK_VERDICTS_def)
  moreover have "spec_approved_X = msg_changed_pre @ ascii ''X'' @ msg_changed_mid @ verdict_approved"
    by (simp add: spec_approved_X_def msg_changed_pre_def msg_changed_mid_def
        verdict_approved_def ascii_def)
  ultimately show "parse_status rt
         (PDict [(ascii ''homework_name'', PStr (ascii ''X'')),
                 (ascii ''status'', PStr (ascii ''approved''))])
       = Inr spec_approved_X"
    by (simp add: parse_status_def verdict_of_def hashable_def py_str_def ascii_def)
qed

theorem parse_status_known_status_witness:
  "map_of HOMEWORK_VERDICTS (ascii ''rejected'') = Some verdict_rejected
   \<and> parse_status rt0 (record_of (ascii ''A'') (ascii ''rejected''))
       = Inr (msg_changed_pre @ ascii ''A'' @ msg_changed_mid @ verdict_rejected)"
proof -
  have known: "map_of HOMEWORK_VERDICTS (ascii ''rejected'') = Some verdict_rejected"
    by (simp add: HOMEWORK_VERDICTS_def ascii_def)
  have name: "map_of [(ascii ''homework_name'', PStr (ascii ''A'')),
                      (ascii ''status'', PStr (ascii ''rejected''))] (ascii ''homework_name'')
              = Some (PStr (ascii ''A'') :: unit pyval)"
    by simp
  have status: "map_of [(ascii ''homework_name'', PStr (ascii ''A'')),
                      (ascii ''status'', PStr (ascii ''rejected''))] (ascii ''status'')
              = Some (PStr (ascii ''rejected'') :: unit pyval)"
    by (simp add: ascii_def)
  from parse_status_known_status
         [of "[(ascii ''homework_name'', PStr (ascii ''A'')),
               (ascii ''status'', PStr (ascii ''rejected''))]"
             "ascii ''A''" "ascii ''rejected''" verdict_rejected rt0]
       known name status
  show ?thesis
    by (simp add: record_of_def)
qed

text \<open>
  Claim C4 says that every record whose status is present and is none of the three keys
  makes \<open>parse_status\<close> fail with the error that names the status. The record
  \<open>{"status": "weird"}\<close> has such a status and no \<open>homework_name\<close>: line 91 comes
  first and raises the \<open>KeyError\<close> for the missing name, whose text does not mention
  the status.
\<close>

theorem unknown_status_counterexample:
  "parse_status rt0 (PDict [(ascii ''status'', PStr (ascii ''weird''))])
     = Inl (Exn KeyError msg_no_homework_name)
   \<and> Exn KeyError msg_no_homework_name
       \<noteq> Exn KeyError (msg_status_pre @ py_str rt0 (PStr (ascii ''weird'')) @ msg_status_post)"
  by (simp add: parse_status_def ascii_def msg_no_homework_name_def msg_status_pre_def)

text \<open>
  Claim C4, amended. For a record that is a dict with a \<open>homework_name\<close> and whose
  \<open>status\<close> is hashable (anything but a list or a dict) and none of \<open>approved\<close>,
  \<open>reviewing\<close>, \<open>rejected\<close>, \<open>parse_status\<close> raises the \<open>KeyError\<close> of line 98,
  whose text holds \<open>str(status)\<close>. When that record is the first of a validated
  response, the pass hands no text to \<open>send_message\<close> other than the failure message,
  which is no status notification (it does not begin as line 101 does), and the cursor
  keeps its value. A status that is a list or a dict is not covered: the membership test
  of line 97 raises \<open>TypeError\<close> for it (\<open>parse_status_unhashable\<close>).
\<close>

theorem unknown_status_rejected:
  assumes "map_of items (ascii ''homework_name'') = Some name"
      and "map_of items (ascii ''status'') = Some status"
      and "hashable status"
      and "status \<notin> {PStr (ascii ''approved''), PStr (ascii ''reviewing''), PStr (ascii ''rejected'')}"
      and "error = Exn KeyError (msg_status_pre @ py_str rt status @ msg_status_post)"
  shows "parse_status rt (PDict items) = Inl error
       \<and> (\<forall>cfg env st response rest.
             snd (get_api_answer rt cfg env (current_timestamp st)) = Inr response
             \<and> check_response response = Inr (PDict items # rest)
            \<longrightarrow> (\<forall>t. Notify t \<in> set (snd (main_iteration rt cfg env st))
                      \<longrightarrow> t = failure_message rt error)
               \<and> (\<forall>rest. failure_message rt error \<noteq> msg_changed_pre @ rest)
               \<and> current_timestamp (fst (main_iteration rt cfg env st)) = current_timestamp st)"
proof -
  have parse: "parse_status rt (PDict items) = Inl error"
    using assms by (simp add: parse_status_unknown)
  show ?thesis
  proof (intro conjI allI impI)
    show "parse_status rt (PDict items) = Inl error" by (rule parse)
  next
    fix cfg and env :: "'a env" and st :: "'a loop_state" and response rest t
    assume a: "snd (get_api_answer rt cfg env (current_timestamp st)) = Inr response
                 \<and> check_response response = Inr (PDict items # rest)"
      and n: "Notify t \<in> set (snd (main_iteration rt cfg env st))"
    from a parse have "try_body rt cfg env (current_timestamp st)
        = ([HttpGet (api_request rt cfg env (current_timestamp st))], Inl error)"
      by (simp add: try_body_parse_failure)
    with n show "t = failure_message rt error"
      by (simp add: main_iteration_failure Notify_send_message split: if_splits)
  next
    fix rest
    show "failure_message rt error \<noteq> msg_changed_pre @ rest"
      by (rule failure_message_not_status)
  next
    fix cfg and env :: "'a env" and st :: "'a loop_state" and response rest
    assume a: "snd (get_api_answer rt cfg env (current_timestamp st)) = Inr response
                 \<and> check_response response = Inr (PDict items # rest)"
    from a parse have "try_body rt cfg env (current_timestamp st)
        = ([HttpGet (api_request rt cfg env (current_timestamp st))], Inl error)"
      by (simp add: try_body_parse_failure)
    then show "current_timestamp (fst (main_iteration rt cfg env st)) = current_timestamp st"
      by (simp add: main_iteration_failure)
  qed
qed

theorem unknown_status_rejected_witness:
  "hashable (PStr (ascii ''weird'') :: unit pyval)
   \<and> parse_status rt0 (record_of (ascii ''A'') (ascii ''weird''))
       = Inl (Exn KeyError (msg_status_pre @ ascii ''weird'' @ msg_status_post))
   \<and> Notify (msg_changed_pre @ ascii ''A'' @ msg_changed_mid @ verdict_rejected)
       \<notin> set (snd (main_iteration rt0 cfg0
                 (env_reply 1001 200
                    (Inr (payload [record_of (ascii ''A'') (ascii ''weird'')] (PInt 2000))) chat_ok)
                 state0))
   \<and> current_timestamp (fst (main_iteration rt0 cfg0
                 (env_reply 1001 200
                    (Inr (payload [record_of (ascii ''A'') (ascii ''weird'')] (PInt 2000))) chat_ok)
                 state0)) = PInt 1000"
proof -
  let ?items = "[(ascii ''homework_name'', PStr (ascii ''A'')),
                 (ascii ''status'', PStr (ascii ''weird''))] :: (ustring \<times> unit pyval) list"
  let ?error = "Exn KeyError (msg_status_pre @ ascii ''weird'' @ msg_status_post)"
  let ?env = "env_reply 1001 200 (Inr (payload [PDict ?items] (PInt 2000))) chat_ok"
  have h: "hashable (PStr (ascii ''weird'') :: unit pyval)"
    by (simp add: hashable_def)
  have name: "map_of ?items (ascii ''homework_name'') = Some (PStr (ascii ''A''))"
    by simp
  have status: "map_of ?items (ascii ''status'') = Some (PStr (ascii ''weird''))"
    by (simp add: ascii_def)
  have unknown: "(PStr (ascii ''weird'') :: unit pyval)
      \<notin> {PStr (ascii ''approved''), PStr (ascii ''reviewing''), PStr (ascii ''rejected'')}"
    by (simp add: ascii_def)
  have error: "?error = Exn KeyError (msg_status_pre @ py_str rt0 (PStr (ascii ''weird'') :: unit pyval)
                  @ msg_status_post)"
    by (simp add: py_str_def)
  note fact = unknown_status_rejected [OF name status h unknown error]
  have fetched: "snd (get_api_answer rt0 cfg0 ?env (current_timestamp state0))
                   = Inr (payload [PDict ?items] (PInt 2000))
                 \<and> check_response (payload [PDict ?items] (PInt 2000)) = Inr (PDict ?items # [])"
    by (simp add: get_api_answer_reply check_response_payload isinstance_int_def)
  from fact fetched
  have sent: "\<forall>t. Notify t \<in> set (snd (main_iteration rt0 cfg0 ?env state0))
                 \<longrightarrow> t = failure_message rt0 ?error"
    and other: "\<forall>rest. failure_message rt0 ?error \<noteq> msg_changed_pre @ rest"
    and kept: "current_timestamp (fst (main_iteration rt0 cfg0 ?env state0))
                 = current_timestamp state0"
    by blast+
  from sent other
  have "Notify (msg_changed_pre @ ascii ''A'' @ msg_changed_mid @ verdict_rejected)
          \<notin> set (snd (main_iteration rt0 cfg0 ?env state0))"
    by metis
  with h fact kept show ?thesis
    by (simp add: record_of_def state0_def)
qed

section \<open>The response validator\<close>

text \<open>
  Claim C5 has the validator fail, when all earlier checks pass, for every
  \<open>current_date\<close> that is not an integer. The response
  \<open>{"homeworks": [], "current_date": true}\<close> carries a boolean: \<open>validate_spec\<close>
  rejects it, while the test of line 80, \<open>isinstance(v, int)\<close>, lets it pass, \<open>bool\<close>
  being a subclass of \<open>int\<close>, and \<open>check_response\<close> returns the empty list.
\<close>

theorem check_response_bool_counterexample:
  "check_response (payload [] (PBool True)) = Inr []
   \<and> validate_spec (payload [] (PBool True)) = Inl (Exn TypeError msg_bad_current_date)"
proof -
  have "check_response (payload [] (PBool True)) = Inr []"
    by (simp add: check_response_payload isinstance_int_def)
  moreover have "validate_spec (payload [] (PBool True))
      = Inl (Exn TypeError msg_bad_current_date)"
    by (simp add: validate_spec_def validate_by_def shape_checks_def is_dict_def is_list_def
          is_integer_def field_def present_but_not_def payload_def ascii_def)
  ultimately show ?thesis by simp
qed

text \<open>
  Claim C5, amended. For every payload \<open>check_response\<close> fails with the error of the
  first failing check in the order not a dict, no \<open>homeworks\<close>, \<open>homeworks\<close> not a
  list, no \<open>current_date\<close>, \<open>current_date\<close> neither an integer nor a boolean, and
  succeeds when none fails: it does what \<open>validate_amended\<close> does. Where the
  \<open>current_date\<close> is no boolean, that is what \<open>validate_spec\<close> does.
\<close>

theorem check_response_first_failing_check:
  "check_response response = validate_amended response
   \<and> ((\<forall>b. field response (ascii ''current_date'') \<noteq> Some (PBool b))
        \<longrightarrow> check_response response = validate_spec response)"
proof
  show "check_response response = validate_amended response"
    by (auto simp: check_response_def validate_amended_def validate_by_def shape_checks_def
          is_dict_def is_list_def is_integer_def is_bool_def isinstance_int_def
          field_def elements_def present_but_not_def split: pyval.splits option.splits)
  show "(\<forall>b. field response (ascii ''current_date'') \<noteq> Some (PBool b))
        \<longrightarrow> check_response response = validate_spec response"
    by (auto simp: check_response_def validate_spec_def validate_by_def shape_checks_def
          is_dict_def is_list_def is_integer_def isinstance_int_def
          field_def elements_def present_but_not_def split: pyval.splits option.splits)
qed

theorem check_response_first_failing_check_witness:
  "check_response (PList [] :: unit pyval) = Inl (Exn TypeError msg_not_dict)
   \<and> check_response (PDict [(ascii ''current_date'', PStr (ascii ''x''))] :: unit pyval)
       = Inl (Exn KeyError msg_no_homeworks)
   \<and> check_response (PDict [(ascii ''homeworks'', PInt 1)] :: unit pyval)
       = Inl (Exn TypeError msg_homeworks_not_list)
   \<and> check_response (PDict [(ascii ''homeworks'', PList [])] :: unit pyval)
       = Inl (Exn KeyError msg_no_current_date)
   \<and> check_response (payload [] (PStr (ascii ''1000'')))
       = Inl (Exn TypeError msg_bad_current_date)
   \<and> check_response (payload [record_of (ascii ''A'') (ascii ''rejected'')] (PInt 2000))
       = Inr [record_of (ascii ''A'') (ascii ''rejected'')]
   \<and> check_response (payload [] (PBool False)) = Inr []
   \<and> field (payload [] (PInt 1000)) (ascii ''current_date'') = Some (PInt 1000)
   \<and> check_response (payload [] (PInt 1000)) = validate_spec (payload [] (PInt 1000))"
proof -
  have date: "field (payload [] (PInt 1000)) (ascii ''current_date'') = Some (PInt 1000)"
    by (simp add: field_def payload_def ascii_def)
  then have "\<forall>b. field (payload [] (PInt 1000)) (ascii ''current_date'')
               \<noteq> Some (PBool b :: unit pyval)"
    by simp
  with check_response_first_failing_check [of "payload [] (PInt 1000)"]
  have same: "check_response (payload [] (PInt 1000)) = validate_spec (payload [] (PInt 1000))"
    by blast
  have "check_response p = validate_amended p" for p :: "unit pyval"
    using check_response_first_failing_check [of p] by blast
  then have "check_response (PList [] :: unit pyval) = Inl (Exn TypeError msg_not_dict)
   \<and> check_response (PDict [(ascii ''current_date'', PStr (ascii ''x''))] :: unit pyval)
       = Inl (Exn KeyError msg_no_homeworks)
   \<and> check_response (PDict [(ascii ''homeworks'', PInt 1)] :: unit pyval)
       = Inl (Exn TypeError msg_homeworks_not_list)
   \<and> check_response (PDict [(ascii ''homeworks'', PList [])] :: unit pyval)
       = Inl (Exn KeyError msg_no_current_date)
   \<and> check_response (payload [] (PStr (ascii ''1000'')))
       = Inl (Exn TypeError msg_bad_current_date)
   \<and> check_response (payload [record_of (ascii ''A'') (ascii ''rejected'')] (PInt 2000))
       = Inr [record_of (ascii ''A'') (ascii ''rejected'')]
   \<and> check_response (payload [] (PBool False)) = Inr []"
    by (simp add: validate_amended_def validate_by_def shape_checks_def is_dict_def is_list_def
          is_integer_def is_bool_def field_def elements_def present_but_not_def payload_def
          ascii_def)
  with date same show ?thesis by simp
qed

text \<open>
  Claim C6 has the validator return a view of the response from which both
  \<open>homeworks\<close> and \<open>current_date\<close> can be read. Line 83 returns
  \<open>response['homeworks']\<close> alone: two responses with the dates 1000 and 2000 give the
  same value, the empty list, which has no \<open>current_date\<close>.
\<close>

theorem check_response_view_counterexample:
  "check_response (payload [] (PInt 1000)) = Inr []
   \<and> check_response (payload [] (PInt 2000)) = Inr []
   \<and> field (PList [] :: unit pyval) (ascii ''current_date'') = None
   \<and> field (payload [] (PInt 1000)) (ascii ''current_date'')
       \<noteq> field (payload [] (PInt 2000)) (ascii ''current_date'')"
proof -
  have "check_response (payload [] (PInt 1000)) = Inr []"
    and "check_response (payload [] (PInt 2000)) = Inr []"
    by (simp_all add: check_response_payload isinstance_int_def)
  moreover have "field (PList [] :: unit pyval) (ascii ''current_date'') = None"
    by (simp add: field_def)
  moreover have "field (payload [] (PInt 1000)) (ascii ''current_date'')
       \<noteq> field (payload [] (PInt 2000)) (ascii ''current_date'')"
    by (simp add: field_def payload_def ascii_def)
  ultimately show ?thesis by simp
qed

text \<open>
  Claim C6, amended. On success \<open>check_response\<close> returns the list stored under
  \<open>homeworks\<close> and nothing else. What its success guarantees is about the response it
  was given: that is a dict, its \<open>homeworks\<close> is that list and its \<open>current_date\<close> is
  present and an \<open>int\<close>, so that the caller's \<open>response.get('current_date')\<close>
  (line 130) yields it.
\<close>

theorem check_response_returns_homeworks:
  assumes "check_response response = Inr homeworks"
  shows "is_dict response
       \<and> field response (ascii ''homeworks'') = Some (PList homeworks)
       \<and> (\<exists>d. field response (ascii ''current_date'') = Some d \<and> isinstance_int d
              \<and> dict_get response (ascii ''current_date'') = Inr d)"
  using check_response_Inr [OF assms]
  by (auto simp: is_dict_def field_def dict_get_def)

theorem check_response_returns_homeworks_witness:
  "check_response (payload [record_of (ascii ''A'') (ascii ''rejected'')] (PInt 2000))
     = Inr [record_of (ascii ''A'') (ascii ''rejected'')]
   \<and> field (payload [record_of (ascii ''A'') (ascii ''rejected'')] (PInt 2000)) (ascii ''homeworks'')
       = Some (PList [record_of (ascii ''A'') (ascii ''rejected'')])
   \<and> dict_get (payload [record_of (ascii ''A'') (ascii ''rejected'')] (PInt 2000))
        (ascii ''current_date'') = Inr (PInt 2000)"
proof -
  have ok: "check_response (payload [record_of (ascii ''A'') (ascii ''rejected'')] (PInt 2000))
     = Inr [record_of (ascii ''A'') (ascii ''rejected'')]"
    by (simp add: check_response_payload isinstance_int_def)
  from check_response_returns_homeworks [OF ok] ok show ?thesis
    by (auto simp: field_def payload_def ascii_def)
qed

section \<open>The cursor\<close>

text \<open>
  Claim C7. A pass whose request and validation succeed sets \<open>current_timestamp\<close> to
  the validated \<open>current_date\<close> of the response, both when the list of homeworks is
  empty and nothing is sent, and when its first record is formatted and sent. Every other
  pass leaves \<open>current_timestamp\<close> as it was and logs the failure: the pass where
  \<open>get_api_answer\<close> raises (transport), the pass where \<open>check_response\<close> raises
  (shape), and the pass where \<open>parse_status\<close> raises for the first record (shape of the
  record, or status). The five cases cover every pass.
\<close>

theorem cursor_follows_current_date:
  "(snd (get_api_answer rt cfg env (current_timestamp st)) = Inr response
      \<and> check_response response = Inr []
    \<longrightarrow> (\<exists>d. field response (ascii ''current_date'') = Some d \<and> isinstance_int d
             \<and> current_timestamp (fst (main_iteration rt cfg env st)) = d)
        \<and> (\<forall>t. Notify t \<notin> set (snd (main_iteration rt cfg env st))))
   \<and> (snd (get_api_answer rt cfg env (current_timestamp st)) = Inr response
      \<and> check_response response = Inr (homework # rest)
      \<and> parse_status rt homework = Inr message
    \<longrightarrow> (\<exists>d. field response (ascii ''current_date'') = Some d \<and> isinstance_int d
             \<and> current_timestamp (fst (main_iteration rt cfg env st)) = d)
        \<and> Notify message \<in> set (snd (main_iteration rt cfg env st)))
   \<and> (snd (get_api_answer rt cfg env (current_timestamp st)) = Inl error
    \<longrightarrow> current_timestamp (fst (main_iteration rt cfg env st)) = current_timestamp st
        \<and> LogError (failure_message rt error) \<in> set (snd (main_iteration rt cfg env st)))
   \<and> (snd (get_api_answer rt cfg env (current_timestamp st)) = Inr response
      \<and> check_response response = Inl error
    \<longrightarrow> current_timestamp (fst (main_iteration rt cfg env st)) = current_timestamp st
        \<and> LogError (failure_message rt error) \<in> set (snd (main_iteration rt cfg env st)))
   \<and> (snd (get_api_answer rt cfg env (current_timestamp st)) = Inr response
      \<and> check_response response = Inr (homework # rest)
      \<and> parse_status rt homework = Inl error
    \<longrightarrow> current_timestamp (fst (main_iteration rt cfg env st)) = current_timestamp st
        \<and> LogError (failure_message rt error) \<in> set (snd (main_iteration rt cfg env st)))
   \<and> (try_body rt cfg env (current_timestamp st) = (evs, Inl error)
    \<longrightarrow> current_timestamp (fst (main_iteration rt cfg env st)) = current_timestamp st)"
proof (intro conjI impI)
  assume a: "snd (get_api_answer rt cfg env (current_timestamp st)) = Inr response
      \<and> check_response response = Inr []"
  then obtain d where d: "try_body rt cfg env (current_timestamp st)
        = ([HttpGet (api_request rt cfg env (current_timestamp st))], Inr d)"
      "field response (ascii ''current_date'') = Some d" "isinstance_int d"
    using try_body_empty by blast
  show "\<exists>d. field response (ascii ''current_date'') = Some d \<and> isinstance_int d
             \<and> current_timestamp (fst (main_iteration rt cfg env st)) = d"
    using d by (simp add: main_iteration_success)
  show "\<forall>t. Notify t \<notin> set (snd (main_iteration rt cfg env st))"
    using d by (simp add: main_iteration_success)
next
  assume a: "snd (get_api_answer rt cfg env (current_timestamp st)) = Inr response
      \<and> check_response response = Inr (homework # rest)
      \<and> parse_status rt homework = Inr message"
  then obtain d where d: "try_body rt cfg env (current_timestamp st)
        = (HttpGet (api_request rt cfg env (current_timestamp st)) # send_message cfg env message,
           Inr d)"
      "field response (ascii ''current_date'') = Some d" "isinstance_int d"
    using try_body_first by blast
  show "\<exists>d. field response (ascii ''current_date'') = Some d \<and> isinstance_int d
             \<and> current_timestamp (fst (main_iteration rt cfg env st)) = d"
    using d by (simp add: main_iteration_success)
  show "Notify message \<in> set (snd (main_iteration rt cfg env st))"
    using d by (simp add: main_iteration_success Notify_send_message)
next
  assume "snd (get_api_answer rt cfg env (current_timestamp st)) = Inl error"
  then have f: "try_body rt cfg env (current_timestamp st)
        = ([HttpGet (api_request rt cfg env (current_timestamp st))], Inl error)"
    by (rule try_body_api_failure)
  show "current_timestamp (fst (main_iteration rt cfg env st)) = current_timestamp st"
    using failed_pass_keeps_cursor [OF f] by simp
  show "LogError (failure_message rt error) \<in> set (snd (main_iteration rt cfg env st))"
    using failed_pass_keeps_cursor [OF f] by simp
next
  assume "snd (get_api_answer rt cfg env (current_timestamp st)) = Inr response
      \<and> check_response response = Inl error"
  then have f: "try_body rt cfg env (current_timestamp st)
        = ([HttpGet (api_request rt cfg env (current_timestamp st))], Inl error)"
    by (simp add: try_body_check_failure)
  show "current_timestamp (fst (main_iteration rt cfg env st)) = current_timestamp st"
    using failed_pass_keeps_cursor [OF f] by simp
  show "LogError (failure_message rt error) \<in> set (snd (main_iteration rt cfg env st))"
    using failed_pass_keeps_cursor [OF f] by simp
next
  assume "snd (get_api_answer rt cfg env (current_timestamp st)) = Inr response
      \<and> check_response response = Inr (homework # rest)
      \<and> parse_status rt homework = Inl error"
  then have f: "try_body rt cfg env (current_timestamp st)
        = ([HttpGet (api_request rt cfg env (current_timestamp st))], Inl error)"
    by (simp add: try_body_parse_failure)
  show "current_timestamp (fst (main_iteration rt cfg env st)) = current_timestamp st"
    using failed_pass_keeps_cursor [OF f] by simp
  show "LogError (failure_message rt error) \<in> set (snd (main_iteration rt cfg env st))"
    using failed_pass_keeps_cursor [OF f] by simp
next
  assume "try_body rt cfg env (current_timestamp st) = (evs, Inl error)"
  then show "current_timestamp (fst (main_iteration rt cfg env st)) = current_timestamp st"
    by (simp add: main_iteration_failure)
qed

theorem cursor_follows_current_date_witness:
  "current_timestamp (fst (main_iteration rt0 cfg0
       (env_reply 1001 200 (Inr (payload [] (PInt 2000))) chat_ok) state0)) = PInt 2000
   \<and> current_timestamp (fst (main_iteration rt0 cfg0
       (env_reply 1001 200 (Inr (payload [record_of (ascii ''A'') (ascii ''rejected'')] (PInt 2000)))
          chat_ok) state0)) = PInt 2000
   \<and> Notify (msg_changed_pre @ ascii ''A'' @ msg_changed_mid @ verdict_rejected)
       \<in> set (snd (main_iteration rt0 cfg0
       (env_reply 1001 200 (Inr (payload [record_of (ascii ''A'') (ascii ''rejected'')] (PInt 2000)))
          chat_ok) state0))
   \<and> snd (get_api_answer rt0 cfg0 (env_down chat_ok) (current_timestamp state0))
       = Inl (Exn Exception (msg_connect @ ascii ''timeout''))
   \<and> current_timestamp (fst (main_iteration rt0 cfg0 (env_down chat_ok) state0)) = PInt 1000
   \<and> check_response (payload [] (PStr (ascii ''2000'')))
       = Inl (Exn TypeError msg_bad_current_date)
   \<and> current_timestamp (fst (main_iteration rt0 cfg0
       (env_reply 1001 200 (Inr (payload [] (PStr (ascii ''2000'')))) chat_ok) state0)) = PInt 1000
   \<and> parse_status rt0 (record_of (ascii ''A'') (ascii ''weird''))
       = Inl (Exn KeyError (msg_status_pre @ ascii ''weird'' @ msg_status_post))
   \<and> current_timestamp (fst (main_iteration rt0 cfg0
       (env_reply 1001 200 (Inr (payload [record_of (ascii ''A'') (ascii ''weird'')] (PInt 2000)))
          chat_ok) state0)) = PInt 1000"
proof -
  let ?A = "record_of (ascii ''A'') (ascii ''rejected'')"
  let ?W = "record_of (ascii ''A'') (ascii ''weird'')"
  let ?text = "msg_changed_pre @ ascii ''A'' @ msg_changed_mid @ verdict_rejected"
  let ?reply = "\<lambda>body. env_reply 1001 200 (Inr body) chat_ok"
  have date: "field (payload hs (PInt 2000)) (ascii ''current_date'') = Some (PInt 2000)" for hs
    by (simp add: field_def payload_def ascii_def)
  have start: "current_timestamp state0 = PInt 1000"
    by (simp add: state0_def)
  have empty: "snd (get_api_answer rt0 cfg0 (?reply (payload [] (PInt 2000)))
                     (current_timestamp state0)) = Inr (payload [] (PInt 2000))
      \<and> check_response (payload [] (PInt 2000)) = Inr []"
    by (simp add: get_api_answer_reply check_response_payload isinstance_int_def)
  have parsed: "parse_status rt0 ?A = Inr ?text"
    by (simp add: parse_status_def verdict_of_def hashable_def py_str_def record_of_def
          HOMEWORK_VERDICTS_def ascii_def)
  have one: "snd (get_api_answer rt0 cfg0 (?reply (payload [?A] (PInt 2000)))
                   (current_timestamp state0)) = Inr (payload [?A] (PInt 2000))
      \<and> check_response (payload [?A] (PInt 2000)) = Inr (?A # [])
      \<and> parse_status rt0 ?A = Inr ?text"
    using parsed by (simp add: get_api_answer_reply check_response_payload isinstance_int_def)
  have down: "snd (get_api_answer rt0 cfg0 (env_down chat_ok) (current_timestamp state0))
      = Inl (Exn Exception (msg_connect @ ascii ''timeout''))"
    by (simp add: get_api_answer_def api_try_def env_down_def Let_def)
  have shape: "check_response (payload [] (PStr (ascii ''2000'')))
      = Inl (Exn TypeError msg_bad_current_date)"
    by (simp add: check_response_def payload_def isinstance_int_def ascii_def)
  have misshapen: "snd (get_api_answer rt0 cfg0 (?reply (payload [] (PStr (ascii ''2000''))))
                   (current_timestamp state0)) = Inr (payload [] (PStr (ascii ''2000'')))
      \<and> check_response (payload [] (PStr (ascii ''2000'')))
          = Inl (Exn TypeError msg_bad_current_date)"
    using shape by (simp add: get_api_answer_reply)
  have unknown: "parse_status rt0 ?W
      = Inl (Exn KeyError (msg_status_pre @ ascii ''weird'' @ msg_status_post))"
    by (simp add: parse_status_def verdict_of_def hashable_def py_str_def record_of_def
          HOMEWORK_VERDICTS_def ascii_def)
  have weird: "snd (get_api_answer rt0 cfg0 (?reply (payload [?W] (PInt 2000)))
                   (current_timestamp state0)) = Inr (payload [?W] (PInt 2000))
      \<and> check_response (payload [?W] (PInt 2000)) = Inr (?W # [])
      \<and> parse_status rt0 ?W
          = Inl (Exn KeyError (msg_status_pre @ ascii ''weird'' @ msg_status_post))"
    using unknown by (simp add: get_api_answer_reply check_response_payload isinstance_int_def)
  from cursor_follows_current_date
         [where rt = rt0 and cfg = cfg0 and env = "?reply (payload [] (PInt 2000))"
            and st = state0 and response = "payload [] (PInt 2000)"] empty
  have first: "current_timestamp (fst (main_iteration rt0 cfg0
       (?reply (payload [] (PInt 2000))) state0)) = PInt 2000"
    by (auto simp: date)
  from cursor_follows_current_date
         [where rt = rt0 and cfg = cfg0 and env = "?reply (payload [?A] (PInt 2000))"
            and st = state0 and response = "payload [?A] (PInt 2000)"
            and homework = ?A and rest = "[]" and message = ?text] one
  have second: "current_timestamp (fst (main_iteration rt0 cfg0
       (?reply (payload [?A] (PInt 2000))) state0)) = PInt 2000
     \<and> Notify ?text \<in> set (snd (main_iteration rt0 cfg0
       (?reply (payload [?A] (PInt 2000))) state0))"
    by (auto simp: date)
  from cursor_follows_current_date
         [where rt = rt0 and cfg = cfg0 and env = "env_down chat_ok" and st = state0
            and error = "Exn Exception (msg_connect @ ascii ''timeout'')"] down
  have third: "current_timestamp (fst (main_iteration rt0 cfg0 (env_down chat_ok) state0))
      = PInt 1000"
    by (simp add: start)
  from cursor_follows_current_date
         [where rt = rt0 and cfg = cfg0 and env = "?reply (payload [] (PStr (ascii ''2000'')))"
            and st = state0 and response = "payload [] (PStr (ascii ''2000''))"
            and error = "Exn TypeError msg_bad_current_date"] misshapen
  have fourth: "current_timestamp (fst (main_iteration rt0 cfg0
       (?reply (payload [] (PStr (ascii ''2000'')))) state0)) = PInt 1000"
    by (simp add: start)
  from cursor_follows_current_date
         [where rt = rt0 and cfg = cfg0 and env = "?reply (payload [?W] (PInt 2000))"
            and st = state0 and response = "payload [?W] (PInt 2000)"
            and homework = ?W and rest = "[]"
            and error = "Exn KeyError (msg_status_pre @ ascii ''weird'' @ msg_status_post)"] weird
  have fifth: "current_timestamp (fst (main_iteration rt0 cfg0
       (?reply (payload [?W] (PInt 2000))) state0)) = PInt 1000"
    by (simp add: start)
  from first second down third shape fourth unknown fifth show ?thesis
    by simp
qed

section \<open>The API client\<close>

text \<open>
  Claim C8 says that for every integer cursor the request carries \<open>from_date\<close> equal
  to the cursor. For the cursor 0 line 52, \<open>current_timestamp or int(time.time())\<close>,
  takes the current time instead: at time 1700000000 the parameter is 1700000000.
\<close>

theorem from_date_counterexample:
  "params (fst (get_api_answer rt0 cfg0 (env_down chat_ok) (PInt 0)))
     = [(ascii ''from_date'', PInt 1700000000)]
   \<and> params (fst (get_api_answer rt0 cfg0 (env_down chat_ok) (PInt 0)))
     \<noteq> [(ascii ''from_date'', PInt 0)]"
  by (simp add: get_api_answer_def api_request_def py_or_def truthy_def env_down_def Let_def)

text \<open>
  Claim C8, amended. For every integer cursor other than 0 the request carries the one
  query parameter \<open>from_date\<close>, equal to the cursor; for the cursor 0 it carries
  \<open>from_date\<close> equal to the current time. The request goes to \<open>ENDPOINT\<close> with
  \<open>HEADERS\<close> in both cases.
\<close>

theorem from_date_is_nonzero_cursor:
  "(c \<noteq> 0 \<longrightarrow> params (fst (get_api_answer rt cfg env (PInt c))) = [(ascii ''from_date'', PInt c)])
   \<and> params (fst (get_api_answer rt cfg env (PInt 0)))
       = [(ascii ''from_date'', PInt (time_now env))]
   \<and> url (fst (get_api_answer rt cfg env (PInt c))) = ENDPOINT
   \<and> headers (fst (get_api_answer rt cfg env (PInt c))) = HEADERS cfg"
  by (simp add: get_api_answer_def api_request_def py_or_def truthy_def Let_def)

theorem from_date_is_nonzero_cursor_witness:
  "(1000::int) \<noteq> 0
   \<and> params (fst (get_api_answer rt0 cfg0 (env_down chat_ok) (PInt 1000)))
       = [(ascii ''from_date'', PInt 1000)]"
  using from_date_is_nonzero_cursor [of 1000 rt0 cfg0 "env_down chat_ok"]
  by simp

text \<open>
  Claim C9 asks for an error kind of its own when the status code is not 200. Line 58
  raises \<open>ConnectionError\<close> with the code in its text, but inside the \<open>try\<close> whose
  handler (line 65) catches it and raises a plain \<open>Exception\<close>: what leaves
  \<open>get_api_answer\<close> for the code 500 has the class of what leaves it when the request
  itself fails. The text does hold the code. \<open>get_api_answer_bad_code\<close> and
  \<open>get_api_answer_raises_plain\<close> say the same of every code and every failure.
\<close>

theorem bad_status_code_raises_plain_exception:
  "snd (get_api_answer rt0 cfg0 (env_reply 1001 500 (Inr PNone) chat_ok) (PInt 1000))
     = Inl (Exn Exception (msg_connect @ msg_bad_code @ ascii ''500''))
   \<and> snd (get_api_answer rt0 cfg0 (env_down chat_ok) (PInt 1000))
     = Inl (Exn Exception (msg_connect @ ascii ''timeout''))"
proof -
  have "str_int 500 = ascii ''500''"
    by code_simp
  then show ?thesis
    by (simp add: get_api_answer_def api_try_def env_reply_def env_down_def Let_def)
qed

section \<open>De-duplication and failed deliveries\<close>

text \<open>
  Claim C10. When a pass fails with a message \<open>m\<close> that is new and
  \<open>bot.send_message\<close> raises for it, \<open>send_message\<close> logs the delivery error and
  returns: the pass hands \<open>m\<close> over, nothing is delivered, and \<open>last_error_message\<close>
  becomes \<open>m\<close> all the same. A next pass that fails with the same \<open>m\<close> only logs it:
  nothing is handed to \<open>send_message\<close>, although the recipient never received \<open>m\<close>.
\<close>

theorem failed_delivery_still_remembered:
  assumes "try_body rt cfg env (current_timestamp st) = (evs, Inl error)"
      and "m = failure_message rt error"
      and "last_error_message st \<noteq> Some m"
      and "bot_send env (TELEGRAM_CHAT_ID cfg) m = Some reason"
  shows "snd (main_iteration rt cfg env st)
           = [HttpGet (api_request rt cfg env (current_timestamp st)), LogError m, Notify m,
              LogError (msg_send_failed @ reason), Sleep RETRY_PERIOD]
       \<and> last_error_message (fst (main_iteration rt cfg env st)) = Some m
       \<and> (\<forall>env' evs' error'.
            try_body rt cfg env' (current_timestamp st) = (evs', Inl error')
            \<and> failure_message rt error' = m
            \<longrightarrow> snd (main_iteration rt cfg env' (fst (main_iteration rt cfg env st)))
                  = [HttpGet (api_request rt cfg env' (current_timestamp st)), LogError m,
                     Sleep RETRY_PERIOD])"
proof -
  have evs: "evs = [HttpGet (api_request rt cfg env (current_timestamp st))]"
    using assms(1) by (rule try_body_failure_events)
  have step: "main_iteration rt cfg env st =
      (st\<lparr>last_error_message := Some m\<rparr>,
       [HttpGet (api_request rt cfg env (current_timestamp st)), LogError m, Notify m,
        LogError (msg_send_failed @ reason), Sleep RETRY_PERIOD])"
    using assms evs by (simp add: main_iteration_failure send_message_def)
  have "snd (main_iteration rt cfg env' (st\<lparr>last_error_message := Some m\<rparr>))
          = [HttpGet (api_request rt cfg env' (current_timestamp st)), LogError m,
             Sleep RETRY_PERIOD]"
    if "try_body rt cfg env' (current_timestamp st) = (evs', Inl error')"
      and "failure_message rt error' = m" for env' evs' error'
    using that try_body_failure_events [OF that(1)]
    by (simp add: main_iteration_failure)
  with step show ?thesis
    by simp
qed

theorem failed_delivery_still_remembered_witness:
  "bot_send (env_down chat_blocked) (TELEGRAM_CHAT_ID cfg0) down_message = Some (ascii ''Forbidden'')
   \<and> snd (main_iteration rt0 cfg0 (env_down chat_blocked) state0)
       = [HttpGet (api_request rt0 cfg0 (env_down chat_blocked) (PInt 1000)),
          LogError down_message, Notify down_message,
          LogError (msg_send_failed @ ascii ''Forbidden''), Sleep RETRY_PERIOD]
   \<and> snd (main_iteration rt0 cfg0 (env_down chat_ok)
            (fst (main_iteration rt0 cfg0 (env_down chat_blocked) state0)))
       = [HttpGet (api_request rt0 cfg0 (env_down chat_ok) (PInt 1000)),
          LogError down_message, Sleep RETRY_PERIOD]"
proof -
  have refused: "bot_send (env_down chat_blocked) (TELEGRAM_CHAT_ID cfg0) down_message
      = Some (ascii ''Forbidden'')"
    by (simp add: env_down_def chat_blocked_def)
  have fresh: "last_error_message state0 \<noteq> Some down_message"
    by (simp add: state0_def)
  note fact = failed_delivery_still_remembered
      [OF try_body_down failure_message_down [symmetric] fresh refused]
  from fact try_body_down [of chat_ok "current_timestamp state0"] failure_message_down
  have "snd (main_iteration rt0 cfg0 (env_down chat_ok)
            (fst (main_iteration rt0 cfg0 (env_down chat_blocked) state0)))
       = [HttpGet (api_request rt0 cfg0 (env_down chat_ok) (current_timestamp state0)),
          LogError down_message, Sleep RETRY_PERIOD]"
    by blast
  with refused fact show ?thesis
    by (simp add: state0_def)
qed

end
